theory Spec2Isabelle
  imports Complex_Main "HOL-Library.Multiset"
begin

section \<open>Exceptions\<close>

text \<open>
  The exceptions of \<^verbatim>\<open>cutout.py\<close> that the model distinguishes. \<open>NameError\<close> carries
  the unbound name; \<open>ValueError\<close> is what numpy raises for a negative dimension or for
  shapes that do not broadcast;
  \<open>LibraryError\<close> stands for any exception raised inside a call into astropy,
  matplotlib or reproject.
\<close>

datatype exn = NameError string | ValueError | LibraryError string

section \<open>Integer pixel positions\<close>

text \<open>
  \<^verbatim>\<open>ipix = [int(x) for x in ipix[0]]\<close> (lines 175, 183, 270, 278): Python's \<^verbatim>\<open>int\<close>
  on a finite float drops the fractional part, towards zero.
\<close>

definition py_int :: "real \<Rightarrow> int" where
  "py_int x = (if 0 \<le> x then \<lfloor>x\<rfloor> else \<lceil>x\<rceil>)"

definition pixel_center :: "real \<times> real \<Rightarrow> int \<times> int" where
  "pixel_center p = (py_int (fst p), py_int (snd p))"

text \<open>
  The rounding the specification asks for, in its words: round half to even, then
  truncate to an integer.
\<close>

definition round_half_even :: "real \<Rightarrow> int" where
  "round_half_even x =
     (let f = \<lfloor>x\<rfloor>; d = x - of_int f
      in if d < 1 / 2 then f
         else if 1 / 2 < d then f + 1
         else if even f then f else f + 1)"

definition spec_pixel_index :: "real \<Rightarrow> int" where
  "spec_pixel_index x = py_int (of_int (round_half_even x))"

section \<open>Two-dimensional arrays and slicing\<close>

text \<open>
  A numpy array of two dimensions: its shape and its rows. The shape is kept beside
  the rows because an array of shape \<open>(0, k)\<close> has no row to read \<open>k\<close> from.
\<close>

datatype 'a ndarray = NDArray (shape0: nat) (shape1: nat) (cells: "'a list list")

definition wf_array :: "'a ndarray \<Rightarrow> bool" where
  "wf_array a \<longleftrightarrow>
     length (cells a) = shape0 a \<and> list_all (\<lambda>r. length r = shape1 a) (cells a)"

text \<open>
  A slice bound of Python on a sequence of length \<open>n\<close>: a negative bound counts from
  the end, and the result is clipped to \<open>0..n\<close>.
\<close>

definition norm_index :: "nat \<Rightarrow> int \<Rightarrow> nat" where
  "norm_index n i = (if i < 0 then nat (max (i + int n) 0) else nat (min i (int n)))"

definition slice_len :: "nat \<Rightarrow> int \<times> int \<Rightarrow> nat" where
  "slice_len n s = norm_index n (snd s) - norm_index n (fst s)"

definition slice_list :: "'a list \<Rightarrow> int \<times> int \<Rightarrow> 'a list" where
  "slice_list xs s =
     take (slice_len (length xs) s) (drop (norm_index (length xs) (fst s)) xs)"

type_synonym slicer = "(int \<times> int) \<times> (int \<times> int)"

text \<open>\<^verbatim>\<open>arr[slicer]\<close> with \<^verbatim>\<open>slicer = np.s_[a:b, c:d]\<close>.\<close>

definition getitem :: "'a ndarray \<Rightarrow> slicer \<Rightarrow> 'a ndarray" where
  "getitem arr sl =
     NDArray (slice_len (shape0 arr) (fst sl)) (slice_len (shape1 arr) (snd sl))
       (map (\<lambda>r. slice_list r (snd sl)) (slice_list (cells arr) (fst sl)))"

text \<open>
  \<^verbatim>\<open>np.zeros((size, size))\<close>: a negative dimension raises \<open>ValueError\<close>. A size too
  large for the memory of the machine makes numpy fail as well; that failure depends
  on the machine and is not part of this definition, so a statement about every
  size takes the success of the allocation as a hypothesis.
\<close>

definition np_zeros :: "int \<Rightarrow> exn + ('a::zero) ndarray" where
  "np_zeros sz =
     (if sz < 0 then Inl ValueError
      else Inr (NDArray (nat sz) (nat sz)
                  (replicate (nat sz) (replicate (nat sz) 0))))"

text \<open>
  \<^verbatim>\<open>temp[:sliced.shape[0], :sliced.shape[1]] = sliced\<close>: the target region is the
  top-left corner of \<open>temp\<close>, clipped to the shape of \<open>temp\<close>; the value is broadcast
  to it (an axis of the value must have the length of the region or length 1),
  otherwise numpy raises \<open>ValueError\<close>.
\<close>

definition setitem_corner :: "'a ndarray \<Rightarrow> 'a ndarray \<Rightarrow> exn + 'a ndarray" where
  "setitem_corner temp sliced =
     (let s0 = shape0 sliced; s1 = shape1 sliced;
          t0 = min s0 (shape0 temp); t1 = min s1 (shape1 temp)
      in if (s0 = t0 \<or> s0 = 1) \<and> (s1 = t1 \<or> s1 = 1)
         then Inr (NDArray (shape0 temp) (shape1 temp)
                (map (\<lambda>i. map (\<lambda>j.
                        if i < t0 \<and> j < t1
                        then cells sliced ! (if s0 = 1 then 0 else i) ! (if s1 = 1 then 0 else j)
                        else cells temp ! i ! j)
                      [0..<shape1 temp])
                   [0..<shape0 temp]))
         else Inl ValueError)"

text \<open>\<^verbatim>\<open>arr_slice(arr, slicer, size)\<close>, lines 129 to 146.\<close>

definition arr_slice :: "('a::zero) ndarray \<Rightarrow> slicer \<Rightarrow> int \<Rightarrow> exn + 'a ndarray" where
  "arr_slice arr sl sz =
     (let sliced = getitem arr sl
      in if shape0 sliced \<noteq> shape1 sliced
         then (case np_zeros sz of
                 Inl e \<Rightarrow> Inl e
               | Inr temp \<Rightarrow> setitem_corner temp sliced)
         else Inr sliced)"

text \<open>
  The window of \<^verbatim>\<open>cutouts\<close>, lines 284 to 286 and 293 to 295:
  \<^verbatim>\<open>half_isize = int(isize / 2.)\<close> and
  \<^verbatim>\<open>np.s_[ipix[1] - half_isize:ipix[1] + half_isize, ipix[0] - half_isize:ipix[0] + half_isize]\<close>.
  The pixel position is \<open>(ipix[0], ipix[1])\<close>. The division is a float division; it is
  exact, and so is this definition, for a size below \<open>2^53\<close> in absolute value.
\<close>

definition half_size :: "int \<Rightarrow> int" where
  "half_size sz = py_int (of_int sz / 2)"

definition window_slicer :: "int \<times> int \<Rightarrow> int \<Rightarrow> slicer" where
  "window_slicer pix sz =
     (let h = half_size sz
      in ((snd pix - h, snd pix + h), (fst pix - h, fst pix + h)))"

text \<open>
  The extraction step of \<^verbatim>\<open>cutouts\<close>, lines 288 and 297:
  \<^verbatim>\<open>icut = arr_slice(fits.getdata(infrared_mosaic), oslicer, isize)\<close>.
\<close>

definition cutout_extract :: "('a::zero) ndarray \<Rightarrow> int \<times> int \<Rightarrow> int \<Rightarrow> exn + 'a ndarray" where
  "cutout_extract arr pix sz = arr_slice arr (window_slicer pix sz) sz"

text \<open>
  The cutout of the specification, in its words: a \<open>size \<times> size\<close> array of zeros into
  which the cells of the requested window \<open>[cy-h, cy+h) \<times> [cx-h, cx+h)\<close> that lie inside
  the parent raster are copied at their position within the window.
\<close>

definition spec_cell :: "('a::zero) ndarray \<Rightarrow> int \<times> int \<Rightarrow> int \<Rightarrow> nat \<Rightarrow> nat \<Rightarrow> 'a" where
  "spec_cell arr pix sz i j =
     (let r = snd pix - (sz div 2) + int i; c = fst pix - (sz div 2) + int j
      in if 0 \<le> r \<and> r < int (shape0 arr) \<and> 0 \<le> c \<and> c < int (shape1 arr)
            \<and> int i < 2 * (sz div 2) \<and> int j < 2 * (sz div 2)
         then cells arr ! nat r ! nat c else 0)"

definition spec_cutout :: "('a::zero) ndarray \<Rightarrow> int \<times> int \<Rightarrow> int \<Rightarrow> 'a ndarray" where
  "spec_cutout arr pix sz =
     NDArray (nat sz) (nat sz)
       (map (\<lambda>i. map (\<lambda>j. spec_cell arr pix sz i j) [0..<nat sz]) [0..<nat sz])"

section \<open>Floating-point values\<close>

text \<open>
  The values of a numpy \<^verbatim>\<open>float64\<close>, idealised: a finite value is a real number
  (rounding, overflow and the sign of zero are not modelled), and the three special
  values are kept, because the control flow of the estimator depends on them.
  The operations follow IEEE 754 on the special values; numpy raises no exception
  for a division by zero or an invalid operation (the module filters the
  \<^verbatim>\<open>RuntimeWarning\<close>, lines 48 and 49).
\<close>

datatype fl = Fin real | PInf | NInf | NaN

fun fl_neg :: "fl \<Rightarrow> fl" where
  "fl_neg (Fin a) = Fin (- a)"
| "fl_neg PInf = NInf"
| "fl_neg NInf = PInf"
| "fl_neg NaN = NaN"

fun fl_add :: "fl \<Rightarrow> fl \<Rightarrow> fl" where
  "fl_add (Fin a) (Fin b) = Fin (a + b)"
| "fl_add NaN _ = NaN"
| "fl_add _ NaN = NaN"
| "fl_add PInf NInf = NaN"
| "fl_add NInf PInf = NaN"
| "fl_add PInf _ = PInf"
| "fl_add _ PInf = PInf"
| "fl_add NInf _ = NInf"
| "fl_add _ NInf = NInf"

definition fl_sub :: "fl \<Rightarrow> fl \<Rightarrow> fl" where
  "fl_sub a b = fl_add a (fl_neg b)"

fun fl_abs :: "fl \<Rightarrow> fl" where
  "fl_abs (Fin a) = Fin \<bar>a\<bar>"
| "fl_abs PInf = PInf"
| "fl_abs NInf = PInf"
| "fl_abs NaN = NaN"

text \<open>The sign of a value that is not \<open>NaN\<close>: \<open>-1\<close>, \<open>0\<close> or \<open>1\<close>.\<close>

fun fl_sgn :: "fl \<Rightarrow> int" where
  "fl_sgn (Fin a) = (if a < 0 then - 1 else if a = 0 then 0 else 1)"
| "fl_sgn PInf = 1"
| "fl_sgn NInf = - 1"
| "fl_sgn NaN = 0"

definition fl_inf :: "int \<Rightarrow> fl" where
  "fl_inf s = (if s < 0 then NInf else if s = 0 then NaN else PInf)"

fun fl_mul :: "fl \<Rightarrow> fl \<Rightarrow> fl" where
  "fl_mul (Fin a) (Fin b) = Fin (a * b)"
| "fl_mul NaN _ = NaN"
| "fl_mul _ NaN = NaN"
| "fl_mul a b = fl_inf (fl_sgn a * fl_sgn b)"

fun fl_div :: "fl \<Rightarrow> fl \<Rightarrow> fl" where
  "fl_div (Fin a) (Fin b) = (if b = 0 then fl_inf (fl_sgn (Fin a)) else Fin (a / b))"
| "fl_div NaN _ = NaN"
| "fl_div _ NaN = NaN"
| "fl_div (Fin a) _ = Fin 0"
| "fl_div a (Fin b) = fl_inf (fl_sgn a * (if b < 0 then - 1 else 1))"
| "fl_div _ _ = NaN"

fun fl_sqrt :: "fl \<Rightarrow> fl" where
  "fl_sqrt (Fin a) = (if a < 0 then NaN else Fin (sqrt a))"
| "fl_sqrt PInf = PInf"
| "fl_sqrt NInf = NaN"
| "fl_sqrt NaN = NaN"

text \<open>\<open>a < b\<close> on floats: false as soon as one side is \<open>NaN\<close>.\<close>

fun fl_less :: "fl \<Rightarrow> fl \<Rightarrow> bool" where
  "fl_less (Fin a) (Fin b) = (a < b)"
| "fl_less NaN _ = False"
| "fl_less _ NaN = False"
| "fl_less _ NInf = False"
| "fl_less PInf _ = False"
| "fl_less _ _ = True"

definition is_nan :: "fl \<Rightarrow> bool" where
  "is_nan x \<longleftrightarrow> x = NaN"

section \<open>The numpy reductions used by the estimator\<close>

text \<open>
  \<^verbatim>\<open>np.nanmean\<close>, \<^verbatim>\<open>np.nanvar\<close> and \<^verbatim>\<open>np.nanstd\<close> on a one-dimensional array, as
  numpy documents them: the \<open>NaN\<close> entries are left out, the mean is the sum over the
  count, the variance is the mean of the squared deviations from the mean (no
  correction of the degrees of freedom), the standard deviation its square root.
  On no entry at all the count is zero and the result is \<open>NaN\<close>.
\<close>

definition fl_sum :: "fl list \<Rightarrow> fl" where
  "fl_sum xs = foldl fl_add (Fin 0) xs"

definition drop_nan :: "fl list \<Rightarrow> fl list" where
  "drop_nan xs = filter (\<lambda>x. \<not> is_nan x) xs"

definition nanmean :: "fl list \<Rightarrow> fl" where
  "nanmean xs = (let ys = drop_nan xs in fl_div (fl_sum ys) (Fin (real (length ys))))"

definition nanvar :: "fl list \<Rightarrow> fl" where
  "nanvar xs =
     (let ys = drop_nan xs; avg = nanmean xs;
          sqr = map (\<lambda>y. fl_mul (fl_sub y avg) (fl_sub y avg)) ys
      in fl_div (fl_sum sqr) (Fin (real (length ys))))"

definition nanstd :: "fl list \<Rightarrow> fl" where
  "nanstd xs = fl_sqrt (nanvar xs)"

section \<open>The robust variance estimator\<close>

text \<open>
  One pass through the body of the \<^verbatim>\<open>while\<close> loop of
  \<^verbatim>\<open>get_background_variance\<close>, lines 111 to 114: from \<open>mean\<close> and \<open>data_clip\<close> to
  the new \<open>diff\<close>, the new \<open>mean\<close> and the new \<open>data_clip\<close>. The boolean mask
  \<^verbatim>\<open>np.abs(data_clip) < mean + sigma_clip * np.nanstd(data_clip)\<close> keeps an entry
  when the comparison is true.
\<close>

definition clip_threshold :: "fl \<Rightarrow> fl \<Rightarrow> fl list \<Rightarrow> fl" where
  "clip_threshold sigma_clip mean data_clip =
     fl_add mean (fl_mul sigma_clip (nanstd data_clip))"

definition clip_keep :: "fl \<Rightarrow> fl \<Rightarrow> fl list \<Rightarrow> fl list" where
  "clip_keep sigma_clip mean data_clip =
     filter (\<lambda>x. fl_less (fl_abs x) (clip_threshold sigma_clip mean data_clip)) data_clip"

definition rel_change :: "fl \<Rightarrow> fl \<Rightarrow> fl" where
  "rel_change mean newmean = fl_div (fl_abs (fl_sub mean newmean)) (fl_add mean newmean)"

definition clip_body :: "fl \<Rightarrow> fl \<Rightarrow> fl list \<Rightarrow> fl \<times> fl \<times> fl list" where
  "clip_body sigma_clip mean data_clip =
     (let data_clip' = clip_keep sigma_clip mean data_clip;
          newmean = nanmean data_clip'
      in (rel_change mean newmean, newmean, data_clip'))"

text \<open>
  The loop \<^verbatim>\<open>while diff > tolerance\<close>, lines 110 to 115. It may run forever, so its
  result is an option: \<open>None\<close> is the loop that never ends.
\<close>

partial_function (option) clip_loop :: "fl \<Rightarrow> fl \<Rightarrow> fl \<times> fl \<times> fl list \<Rightarrow> fl option" where
  "clip_loop sigma_clip tolerance st =
     (if fl_less tolerance (fst st)
      then clip_loop sigma_clip tolerance
             (clip_body sigma_clip (fst (snd st)) (snd (snd st)))
      else Some (nanvar (snd (snd st))))"

text \<open>
  \<^verbatim>\<open>get_background_variance(data, sigma_clip=5.0, tolerance=0.01)\<close>, lines 92 to 115:
  \<^verbatim>\<open>diff = 1\<close>, \<^verbatim>\<open>mean = np.nanmean(data)\<close>, \<^verbatim>\<open>data_clip = data\<close>, then the loop.
\<close>

definition get_background_variance :: "fl list \<Rightarrow> fl \<Rightarrow> fl \<Rightarrow> fl option" where
  "get_background_variance data sigma_clip tolerance =
     clip_loop sigma_clip tolerance (Fin 1, nanmean data, data)"

text \<open>
  The estimator of the specification, in its words (section 4.4): the subset starts
  as all samples; a pass removes the samples whose absolute value exceeds
  \<open>mean + sigmaClip * stddev(subset)\<close>, recomputes the mean and the relative change,
  and the passes repeat until the relative change is at most the tolerance; a zero
  denominator counts as converged. \<open>spec_passes\<close> runs at most \<open>n\<close> passes.
\<close>

definition spec_keep :: "fl \<Rightarrow> fl \<Rightarrow> fl list \<Rightarrow> fl list" where
  "spec_keep sigma_clip mean sub =
     filter (\<lambda>x. \<not> fl_less (clip_threshold sigma_clip mean sub) (fl_abs x)) sub"

definition spec_converged :: "fl \<Rightarrow> fl \<Rightarrow> fl \<Rightarrow> bool" where
  "spec_converged tolerance mean mean' \<longleftrightarrow>
     fl_add mean mean' = Fin 0 \<or> \<not> fl_less tolerance (rel_change mean mean')"

fun spec_passes :: "nat \<Rightarrow> fl \<Rightarrow> fl \<Rightarrow> fl \<Rightarrow> fl list \<Rightarrow> fl option" where
  "spec_passes 0 sigma_clip tolerance mean sub = None"
| "spec_passes (Suc n) sigma_clip tolerance mean sub =
     (let sub' = spec_keep sigma_clip mean sub; mean' = nanmean sub'
      in if spec_converged tolerance mean mean' then Some (nanvar sub')
         else spec_passes n sigma_clip tolerance mean' sub')"

definition spec_variance :: "nat \<Rightarrow> fl list \<Rightarrow> fl \<Rightarrow> fl \<Rightarrow> fl option" where
  "spec_variance n data sigma_clip tolerance =
     spec_passes n sigma_clip tolerance (nanmean data) data"

section \<open>Name resolution in \<^verbatim>\<open>cutouts2\<close>\<close>

text \<open>
  A statement of a function body, reduced to the names it reads, in the order of
  evaluation, and the local names it binds.
\<close>

datatype stmt = Stmt (loads: "string list") (stores: "string list")

text \<open>
  The names bound in the module namespace of \<^verbatim>\<open>cutout.py\<close>: by the imports of
  lines 34 to 46, by the definitions of lines 52 to 245, and by the test block
  of lines 335 to 352 when the file runs as a script.
\<close>

definition module_globals :: "string list" where
  "module_globals =
     [''division'', ''print_function'', ''time'', ''warnings'', ''wcs'', ''plt'',
      ''ndimage'', ''np'', ''reproject'', ''fits'', ''AstropyWarning'', ''verbose'',
      ''verboseprint'', ''Timer'', ''get_background_variance'', ''rms'', ''arr_slice'',
      ''cutouts2'', ''cutouts'',
      ''radio'', ''noise'', ''swire'', ''optic'', ''target'', ''fig'', ''ax'',
      ''axtrans'', ''omap'', ''sources'']"

text \<open>The built-in functions and constants of Python 3.\<close>

definition py_builtins :: "string list" where
  "py_builtins =
     [''abs'', ''aiter'', ''all'', ''anext'', ''any'', ''ascii'', ''bin'', ''bool'',
      ''breakpoint'', ''bytearray'', ''bytes'', ''callable'', ''chr'', ''classmethod'',
      ''compile'', ''complex'', ''delattr'', ''dict'', ''dir'', ''divmod'', ''enumerate'',
      ''eval'', ''exec'', ''filter'', ''float'', ''format'', ''frozenset'', ''getattr'',
      ''globals'', ''hasattr'', ''hash'', ''help'', ''hex'', ''id'', ''input'', ''int'',
      ''isinstance'', ''issubclass'', ''iter'', ''len'', ''list'', ''locals'', ''map'',
      ''max'', ''memoryview'', ''min'', ''next'', ''object'', ''oct'', ''open'', ''ord'',
      ''pow'', ''print'', ''property'', ''range'', ''repr'', ''reversed'', ''round'',
      ''set'', ''setattr'', ''slice'', ''sorted'', ''staticmethod'', ''str'', ''sum'',
      ''super'', ''tuple'', ''type'', ''vars'', ''zip'', ''__import__'',
      ''Exception'', ''NotImplemented'', ''Ellipsis'', ''__debug__'']"

definition name_bound :: "string list \<Rightarrow> string \<Rightarrow> bool" where
  "name_bound locs n \<longleftrightarrow>
     n \<in> set locs \<or> n \<in> set module_globals \<or> n \<in> set py_builtins"

text \<open>
  Running a body: a statement whose first unbound name is \<open>n\<close> raises
  \<open>NameError n\<close>; otherwise the calls it makes may raise (\<open>raises i\<close> is the exception
  of statement \<open>i\<close>, if any); otherwise its names are bound and the next statement
  runs. \<open>Inr\<close> is the function reaching its \<^verbatim>\<open>return\<close>.
\<close>

fun run_stmts :: "(nat \<Rightarrow> exn option) \<Rightarrow> nat \<Rightarrow> string list \<Rightarrow> stmt list \<Rightarrow> exn + string list" where
  "run_stmts raises i locs [] = Inr locs"
| "run_stmts raises i locs (s # ss) =
     (case find (\<lambda>n. \<not> name_bound locs n) (loads s) of
        Some n \<Rightarrow> Inl (NameError n)
      | None \<Rightarrow>
          (case raises i of
             Some e \<Rightarrow> Inl e
           | None \<Rightarrow> run_stmts raises (Suc i) (stores s @ locs) ss))"

definition cutouts2_params :: "string list" where
  "cutouts2_params =
     [''infrared_mosaic'', ''radio_image'', ''radio_rms'', ''targetRA'', ''targetDEC'',
      ''isize'', ''rsize'', ''vmax'', ''verbose'']"

text \<open>Lines 164 to 194 of \<^verbatim>\<open>cutouts2\<close>, one entry per statement.\<close>

definition cutouts2_head :: "stmt list" where
  "cutouts2_head =
     [Stmt [] [''PowerNorm''],
      Stmt [] [''Cutout2D''],
      Stmt [''targetRA'', ''targetDEC''] [''target_radec''],
      Stmt [''wcs'', ''infrared_mosaic''] [''imap_full''],
      Stmt [''imap_full'', ''target_radec''] [''ipix''],
      Stmt [''ipix'', ''int''] [''ipix''],
      Stmt [''verboseprint'', ''fits'', ''infrared_mosaic''] [],
      Stmt [''verboseprint'', ''ipix''] [],
      Stmt [''wcs'', ''radio_image''] [''rmap_full''],
      Stmt [''rmap_full'', ''target_radec''] [''rpix''],
      Stmt [''rpix'', ''int''] [''rpix''],
      Stmt [''verboseprint'', ''fits'', ''radio_image''] [],
      Stmt [''verboseprint'', ''rpix''] [],
      Stmt [''Cutout2D'', ''fits'', ''infrared_mosaic'', ''ipix'', ''isize'', ''isize'',
            ''wcs'', ''infrared_mosaic''] [''icut''],
      Stmt [''icut''] [''imap''],
      Stmt [''Cutout2D'', ''fits'', ''radio_image'', ''rpix'', ''rsize'', ''rsize'',
            ''wcs'', ''radio_image''] [''rcut''],
      Stmt [''rcut''] [''rmap'']]"

text \<open>Line 204, \<^verbatim>\<open>data = pyfits.getdata(radio_image)\<close>.\<close>

definition cutouts2_getdata :: stmt where
  "cutouts2_getdata = Stmt [''pyfits'', ''radio_image''] [''data'']"

text \<open>Lines 205 to 241 of \<^verbatim>\<open>cutouts2\<close>, the last entry being the \<^verbatim>\<open>return\<close>.\<close>

definition cutouts2_tail :: "stmt list" where
  "cutouts2_tail =
     [Stmt [''np'', ''get_background_variance'', ''data''] [''local_rms''],
      Stmt [''print'', ''local_rms''] [],
      Stmt [''print'', ''radio_image''] [],
      Stmt [''np'', ''data'', ''local_rms''] [''highest_number_of_sigma''],
      Stmt [''math'', ''math'', ''highest_number_of_sigma''] [''use_this_highest_power''],
      Stmt [''local_rms'', ''np'', ''use_this_highest_power'', ''use_this_highest_power'']
           [''contours''],
      Stmt [''print'', ''contours''] [],
      Stmt [''reproject'', ''rcut'', ''rmap'', ''imap'', ''icut''] [''project_r'', ''footprint''],
      Stmt [''plt''] [''figure''],
      Stmt [''figure'', ''imap''] [''axis''],
      Stmt [''axis''] [''axtrans''],
      Stmt [''PowerNorm''] [''normalise''],
      Stmt [''axis'', ''icut'', ''normalise'', ''vmax''] [],
      Stmt [''axis'', ''np'', ''project_r'', ''np'', ''project_r'', ''project_r'', ''contours''] [],
      Stmt [''axis''] [],
      Stmt [''axis''] [],
      Stmt [''axis''] [],
      Stmt [''figure'', ''axis'', ''axtrans'', ''imap''] []]"

definition cutouts2_body :: "stmt list" where
  "cutouts2_body = cutouts2_head @ cutouts2_getdata # cutouts2_tail"

definition cutouts2_run :: "(nat \<Rightarrow> exn option) \<Rightarrow> exn + string list" where
  "cutouts2_run raises = run_stmts raises 0 cutouts2_params cutouts2_body"

text \<open>Every name the body of \<^verbatim>\<open>cutouts2\<close> can have bound when it runs.\<close>

definition cutouts2_names :: "string list" where
  "cutouts2_names = concat (map stores cutouts2_body) @ cutouts2_params"

section \<open>Facts about slicing\<close>

lemmas cutout_defs = cutout_extract_def arr_slice_def window_slicer_def half_size_def py_int_def
  getitem_def slice_len_def slice_list_def norm_index_def np_zeros_def setitem_corner_def

lemma half_size_nonneg: "0 \<le> sz \<Longrightarrow> half_size sz = sz div 2"
  unfolding half_size_def py_int_def
  by (simp add: floor_divide_of_int_eq [of sz 2, simplified])

lemma slice_len_le: "a \<le> b \<Longrightarrow> slice_len n (a, b) \<le> nat (b - a)"
  unfolding slice_len_def norm_index_def by auto

lemma window_rows_le: "0 \<le> sz \<Longrightarrow> shape0 (getitem arr (window_slicer pix sz)) \<le> nat sz"
proof -
  assume sz: "0 \<le> sz"
  have "slice_len (shape0 arr) (snd pix - sz div 2, snd pix + sz div 2) \<le> nat (2 * (sz div 2))"
    using sz slice_len_le [of "snd pix - sz div 2" "snd pix + sz div 2" "shape0 arr"] by simp
  also have "\<dots> \<le> nat sz" by simp
  finally show ?thesis
    by (simp add: getitem_def window_slicer_def Let_def half_size_nonneg [OF sz])
qed

lemma window_cols_le: "0 \<le> sz \<Longrightarrow> shape1 (getitem arr (window_slicer pix sz)) \<le> nat sz"
proof -
  assume sz: "0 \<le> sz"
  have "slice_len (shape1 arr) (fst pix - sz div 2, fst pix + sz div 2) \<le> nat (2 * (sz div 2))"
    using sz slice_len_le [of "fst pix - sz div 2" "fst pix + sz div 2" "shape1 arr"] by simp
  also have "\<dots> \<le> nat sz" by simp
  finally show ?thesis
    by (simp add: getitem_def window_slicer_def Let_def half_size_nonneg [OF sz])
qed


lemma slice_len_iff:
  "0 \<le> a \<Longrightarrow> a \<le> b \<Longrightarrow> i < slice_len n (a, b) \<longleftrightarrow> nat a + i < n \<and> int i < b - a"
  unfolding slice_len_def norm_index_def by auto

lemma norm_index_le: "norm_index n i \<le> n"
  unfolding norm_index_def by auto

lemma slice_list_length: "length (slice_list xs s) = slice_len (length xs) s"
  unfolding slice_list_def slice_len_def
  using norm_index_le [of "length xs" "snd s"] by auto

lemma slice_list_nth:
  "0 \<le> a \<Longrightarrow> a \<le> b \<Longrightarrow> i < slice_len (length xs) (a, b) \<Longrightarrow>
   slice_list xs (a, b) ! i = xs ! (nat a + i)"
  unfolding slice_list_def
  by (auto simp: slice_len_iff norm_index_def min_def)

lemma getitem_cell:
  assumes wf: "wf_array arr"
    and a: "0 \<le> a" "a \<le> b" and c: "0 \<le> c" "c \<le> d"
    and i: "i < slice_len (shape0 arr) (a, b)" and j: "j < slice_len (shape1 arr) (c, d)"
  shows "cells (getitem arr ((a, b), (c, d))) ! i ! j = cells arr ! (nat a + i) ! (nat c + j)"
proof -
  from wf have len: "length (cells arr) = shape0 arr" by (simp add: wf_array_def)
  from i a have ri: "nat a + i < shape0 arr" by (simp add: slice_len_iff)
  with wf len have rl: "length (cells arr ! (nat a + i)) = shape1 arr"
    by (simp add: wf_array_def list_all_length)
  have "cells (getitem arr ((a, b), (c, d))) ! i = slice_list (slice_list (cells arr) (a, b) ! i) (c, d)"
    using i len by (simp add: getitem_def slice_list_length)
  also have "slice_list (cells arr) (a, b) ! i = cells arr ! (nat a + i)"
    using i len a by (simp add: slice_list_nth)
  finally show ?thesis using j c rl by (simp add: slice_list_nth)
qed

text \<open>
  Where the code and the specification agree: a window that does not start before
  row \<open>0\<close> or column \<open>0\<close> and whose slice is not square is cut out as the
  specification says, with the cells of the raster at their place in the window
  and zeros elsewhere.
\<close>

lemma cutout_extract_high_side:
  assumes wf: "wf_array arr" and sz: "0 \<le> sz"
    and r0: "sz div 2 \<le> snd pix" and c0: "sz div 2 \<le> fst pix"
    and ns: "shape0 (getitem arr (window_slicer pix sz)) \<noteq> shape1 (getitem arr (window_slicer pix sz))"
  shows "cutout_extract arr pix sz = Inr (spec_cutout arr pix sz)"
proof -
  define h where "h = sz div 2"
  define a where "a = snd pix - h"
  define c where "c = fst pix - h"
  have h0: "0 \<le> h" using sz by (simp add: h_def)
  have a0: "0 \<le> a" "a \<le> a + 2 * h" and c0': "0 \<le> c" "c \<le> c + 2 * h"
    using r0 c0 h0 by (simp_all add: a_def c_def h_def)
  have ws: "window_slicer pix sz = ((a, a + 2 * h), (c, c + 2 * h))"
    by (simp add: window_slicer_def Let_def half_size_nonneg [OF sz] a_def c_def h_def)
  let ?s = "getitem arr ((a, a + 2 * h), (c, c + 2 * h))"
  define s0 where "s0 = slice_len (shape0 arr) (a, a + 2 * h)"
  define s1 where "s1 = slice_len (shape1 arr) (c, c + 2 * h)"
  have sh: "shape0 ?s = s0" "shape1 ?s = s1" by (simp_all add: getitem_def s0_def s1_def)
  have le: "s0 \<le> nat sz" "s1 \<le> nat sz"
    using window_rows_le [OF sz, of arr pix] window_cols_le [OF sz, of arr pix]
    by (simp_all add: ws sh)
  have cell: "(if i < s0 \<and> j < s1
               then cells ?s ! (if s0 = 1 then 0 else i) ! (if s1 = 1 then 0 else j)
               else (0::'a)) = spec_cell arr pix sz i j" for i j
  proof (cases "i < s0 \<and> j < s1")
    case True
    then have ij: "i < slice_len (shape0 arr) (a, a + 2 * h)" "j < slice_len (shape1 arr) (c, c + 2 * h)"
      by (simp_all add: s0_def s1_def)
    have i': "(if s0 = 1 then 0 else i) = i" and j': "(if s1 = 1 then 0 else j) = j"
      using True by auto
    have lhs: "(if i < s0 \<and> j < s1
               then cells ?s ! (if s0 = 1 then 0 else i) ! (if s1 = 1 then 0 else j)
               else (0::'a)) = cells ?s ! i ! j"
      using True by (simp only: i' j' if_True simp_thms)
    have mid: "cells ?s ! i ! j = cells arr ! (nat a + i) ! (nat c + j)"
      by (rule getitem_cell [OF wf a0 c0' ij])
    from ij a0 c0' have b: "nat a + i < shape0 arr" "int i < 2 * h"
        "nat c + j < shape1 arr" "int j < 2 * h"
      by (simp_all add: slice_len_iff)
    have ra: "snd pix - sz div 2 + int i = int (nat a + i)"
      and ca: "fst pix - sz div 2 + int j = int (nat c + j)"
      using a0 c0' by (simp_all add: a_def c_def h_def)
    have bi: "a + int i < int (shape0 arr)" "c + int j < int (shape1 arr)"
      using b a0 c0' by linarith+
    have rhs: "spec_cell arr pix sz i j = cells arr ! (nat a + i) ! (nat c + j)"
      unfolding spec_cell_def Let_def ra ca using b bi a0 c0'
      by (simp add: h_def nat_add_distrib)
    show ?thesis unfolding lhs mid rhs ..
  next
    case False
    then have out: "\<not> (nat a + i < shape0 arr \<and> int i < 2 * h) \<or>
        \<not> (nat c + j < shape1 arr \<and> int j < 2 * h)"
      using a0 c0' by (auto simp: s0_def s1_def slice_len_iff)
    have ra: "snd pix - sz div 2 + int i = int (nat a + i)"
      and ca: "fst pix - sz div 2 + int j = int (nat c + j)"
      using a0 c0' by (simp_all add: a_def c_def h_def)
    from out a0 c0' have outi: "\<not> (a + int i < int (shape0 arr) \<and> int i < 2 * h) \<or>
        \<not> (c + int j < int (shape1 arr) \<and> int j < 2 * h)"
      by linarith
    have z: "spec_cell arr pix sz i j = 0"
      unfolding spec_cell_def Let_def ra ca using outi a0 c0' by (auto simp: h_def)
    show ?thesis unfolding z using False by (simp only: if_False)
  qed
  have "cutout_extract arr pix sz =
      setitem_corner (NDArray (nat sz) (nat sz) (replicate (nat sz) (replicate (nat sz) 0))) ?s"
    using ns sz by (simp add: cutout_extract_def arr_slice_def Let_def np_zeros_def ws)
  also have "\<dots> = Inr (NDArray (nat sz) (nat sz)
      (map (\<lambda>i. map (\<lambda>j. if i < s0 \<and> j < s1
               then cells ?s ! (if s0 = 1 then 0 else i) ! (if s1 = 1 then 0 else j)
               else (0::'a)) [0..<nat sz]) [0..<nat sz]))"
    using le by (simp add: setitem_corner_def Let_def sh min_absorb1)
  also have "\<dots> = Inr (spec_cutout arr pix sz)"
    by (simp add: cell spec_cutout_def)
  finally show ?thesis .
qed

section \<open>The shape of a cutout\<close>

text \<open>
  Claim C1 says that for every positive size and every target position the cutout
  has shape \<open>(size, size)\<close>, zero-filled outside the raster, never ragged and never
  empty. The code pads only a slice that is not square: a target whose window misses
  the raster on both axes gives a slice of shape \<open>(0, 0)\<close>, which is square and is
  returned as it is. On a \<open>3 \<times> 3\<close> raster, target pixel \<open>(10, 10)\<close> and size \<open>2\<close>,
  the cutout is the empty array, not a \<open>2 \<times> 2\<close> array of zeros.
\<close>

theorem cutout_uncovered_target_is_empty:
  "cutout_extract (NDArray 3 3 [[1, 2, 3], [4, 5, 6], [7, 8, 9::int]]) (10, 10) 2
     = Inr (NDArray 0 0 [])"
  by (simp add: cutout_defs)

text \<open>
  Claim C9 says that under partial overlap the overlapping cells land in the zero
  array at the offset of the intersection within the requested window. The code
  writes the slice at the top-left corner, and a window that starts before row \<open>0\<close>
  has a negative slice bound, which Python counts from the end of the axis. On a
  \<open>3 \<times> 3\<close> raster, target pixel \<open>(1, 0)\<close> and size \<open>2\<close>, the window covers rows
  \<open>-1\<close> and \<open>0\<close>: the specification puts row \<open>0\<close> of the raster in row \<open>1\<close> of the
  cutout, the code returns zeros only.
\<close>

theorem cutout_low_side_overhang_misplaced:
  "cutout_extract (NDArray 3 3 [[1, 2, 3], [4, 5, 6], [7, 8, 9::int]]) (1, 0) 2
     = Inr (NDArray 2 2 [[0, 0], [0, 0]]) \<and>
   spec_cutout (NDArray 3 3 [[1, 2, 3], [4, 5, 6], [7, 8, 9::int]]) (1, 0) 2
     = NDArray 2 2 [[0, 0], [1, 2]]"
  by (simp add: cutout_defs spec_cutout_def spec_cell_def Let_def upt_rec)

section \<open>Errors of the extraction\<close>




section \<open>Integer pixel indices\<close>

text \<open>
  Claim C10, as the code has it: the integer pixel index is the conversion result
  truncated towards zero, with no rounding before: \<open>py_int x\<close> is the one integer
  \<open>n\<close> with \<open>|n| \<le> |x|\<close> and \<open>|x - n| < 1\<close>.
\<close>

theorem py_int_truncates:
  "py_int x = n \<longleftrightarrow> \<bar>of_int n\<bar> \<le> \<bar>x\<bar> \<and> \<bar>x - of_int n\<bar> < 1"
  unfolding py_int_def by (auto; linarith)

text \<open>Witness for C10: the pixel coordinate \<open>2.7\<close> becomes the index \<open>2\<close>.\<close>

theorem py_int_truncates_witness:
  "py_int (27 / 10) = 2 \<and> pixel_center (27 / 10, - 3 / 2) = (2, - 1)"
  using py_int_truncates [of "27 / 10" 2] py_int_truncates [of "- 3 / 2" "- 1"]
  by (simp add: pixel_center_def)

text \<open>
  Counterexample to C10 as stated: at \<open>2.7\<close> the code gives \<open>2\<close>, rounding half to
  even and then truncating gives \<open>3\<close>.
\<close>

theorem pixel_index_counterexample:
  "py_int (27 / 10) = 2 \<and> spec_pixel_index (27 / 10) = 3"
  by (simp add: py_int_def round_half_even_def spec_pixel_index_def Let_def)

section \<open>Facts about the estimator\<close>

lemmas est_defs = clip_body_def clip_keep_def clip_threshold_def
  rel_change_def nanmean_def nanvar_def nanstd_def drop_nan_def fl_sum_def fl_sub_def is_nan_def fl_inf_def

lemma fl_less_NaN_right [simp]: "fl_less a NaN = False"
  by (cases a) simp_all

lemma clip_loop_continue:
  "fl_less tolerance (fst st) \<Longrightarrow>
   clip_loop sigma_clip tolerance st =
     clip_loop sigma_clip tolerance (clip_body sigma_clip (fst (snd st)) (snd (snd st)))"
  by (subst clip_loop.simps) simp

lemma clip_loop_stop:
  "\<not> fl_less tolerance (fst st) \<Longrightarrow>
   clip_loop sigma_clip tolerance st = Some (nanvar (snd (snd st)))"
  by (subst clip_loop.simps) simp

lemma clip_keep_length: "length (clip_keep c m xs) \<le> length xs"
  by (simp add: clip_keep_def)

lemma clip_keep_same: "length (clip_keep c m xs) = length xs \<Longrightarrow> clip_keep c m xs = xs"
  unfolding clip_keep_def
  by (metis filter_True length_filter_less less_irrefl)

lemma rel_change_same: "rel_change m m = Fin 0 \<or> rel_change m m = NaN"
  by (cases m) (simp_all add: rel_change_def fl_sub_def fl_inf_def)

lemma rel_change_same_stops:
  "\<not> fl_less tol (Fin 0) \<Longrightarrow> \<not> fl_less tol (rel_change m m)"
  using rel_change_same [of m] by auto

lemma clip_loop_terminates:
  assumes tol: "\<not> fl_less tol (Fin 0)"
  shows "\<exists>v. clip_loop c tol (d, nanmean xs, xs) = Some v"
proof (induction "length xs" arbitrary: xs d rule: less_induct)
  case less
  show ?case
  proof (cases "fl_less tol d")
    case False
    then show ?thesis by (simp add: clip_loop_stop)
  next
    case True
    let ?xs' = "clip_keep c (nanmean xs) xs"
    have step: "clip_loop c tol (d, nanmean xs, xs) =
        clip_loop c tol (rel_change (nanmean xs) (nanmean ?xs'), nanmean ?xs', ?xs')"
      using True by (simp add: clip_loop_continue clip_body_def Let_def)
    show ?thesis
    proof (cases "length ?xs' < length xs")
      case True
      from less [OF this] step show ?thesis by simp
    next
      case False
      with clip_keep_length [of c "nanmean xs" xs] have "?xs' = xs"
        by (simp add: clip_keep_same)
      with step tol show ?thesis
        by (simp add: clip_loop_stop rel_change_same_stops)
    qed
  qed
qed

lemma gbv_empty: "get_background_variance [] c tol = Some NaN"
proof -
  have b: "clip_body c NaN [] = (NaN, NaN, [])"
    by (simp add: est_defs Let_def)
  have m: "nanmean [] = NaN" by (simp add: est_defs Let_def)
  have v: "nanvar [] = NaN" by (simp add: est_defs Let_def)
  show ?thesis
    unfolding get_background_variance_def m
    by (cases "fl_less tol (Fin 1)") (simp_all add: clip_loop_continue b clip_loop_stop v)
qed

lemma clip_loop_fixed_aux:
  assumes run: "clip_loop c' tol' st' = Some y"
    and body: "clip_body c (fst (snd st)) (snd (snd st)) = st"
    and go: "fl_less tol (fst st)"
  shows "\<not> (c' = c \<and> tol' = tol \<and> st' = st)"
proof (rule clip_loop.raw_induct
    [where P = "\<lambda>c' tol' st' y. \<not> (c' = c \<and> tol' = tol \<and> st' = st)", OF _ run])
  fix f c' tol' st' y'
  assume IH: "\<And>a b s y. f a b s = Some y \<Longrightarrow> \<not> (a = c \<and> b = tol \<and> s = st)"
    and step: "(if fl_less tol' (fst st')
                then f c' tol' (clip_body c' (fst (snd st')) (snd (snd st')))
                else Some (nanvar (snd (snd st')))) = Some y'"
  show "\<not> (c' = c \<and> tol' = tol \<and> st' = st)"
  proof
    assume "c' = c \<and> tol' = tol \<and> st' = st"
    with step go body have "f c tol st = Some y'" by simp
    from IH [OF this] show False by simp
  qed
qed

lemma clip_loop_fixed_state:
  assumes body: "clip_body c (fst (snd st)) (snd (snd st)) = st"
    and go: "fl_less tol (fst st)"
  shows "clip_loop c tol st = None"
proof (cases "clip_loop c tol st")
  case (Some y)
  from clip_loop_fixed_aux [OF this body go] show ?thesis by simp
qed simp


section \<open>The passes of the estimator\<close>

text \<open>
  Claim C5, as the code has it: a pass never adds to the working subset (the subset
  after a pass is a sub-multiset of the subset before it), and for every input
  sequence and every tolerance that is not negative the loop ends, whatever
  \<open>sigma_clip\<close> is.
\<close>

theorem estimator_shrinks_and_terminates:
  "mset (snd (snd (clip_body sigma_clip mean data_clip))) \<subseteq># mset data_clip \<and>
   (\<not> fl_less tolerance (Fin 0) \<longrightarrow>
      (\<exists>v. get_background_variance data sigma_clip tolerance = Some v))"
  by (simp add: clip_body_def Let_def clip_keep_def get_background_variance_def
      clip_loop_terminates)

text \<open>Witness for C5: the defaults \<open>sigma_clip = 5\<close>, \<open>tolerance = 0.01\<close> on \<open>[1, 3, 50]\<close>.\<close>

theorem estimator_shrinks_and_terminates_witness:
  "\<not> fl_less (Fin (1 / 100)) (Fin 0) \<and>
   (\<exists>v. get_background_variance [Fin 1, Fin 3, Fin 50] (Fin 5) (Fin (1 / 100)) = Some v) \<and>
   mset (snd (snd (clip_body (Fin 5) (Fin 18) [Fin 1, Fin 3, Fin 50])))
     \<subseteq># mset [Fin 1, Fin 3, Fin 50]"
  using estimator_shrinks_and_terminates
    [of "Fin 5" "Fin 18" "[Fin 1, Fin 3, Fin 50]" "Fin (1 / 100)" "[Fin 1, Fin 3, Fin 50]"]
  by simp

text \<open>
  Counterexample to C5 as stated: on \<open>[2, 4]\<close> with the tolerance \<open>-0.5\<close> the first
  pass removes nothing and leaves the mean at \<open>3\<close>, the relative change is \<open>0\<close>,
  which is above the tolerance, and every later pass is the same: the loop never
  ends.
\<close>

theorem estimator_negative_tolerance_counterexample:
  "get_background_variance [Fin 2, Fin 4] (Fin 5) (Fin (- 1 / 2)) = None"
proof -
  have m: "nanmean [Fin 2, Fin 4] = Fin 3" by (simp add: est_defs Let_def)
  have b: "clip_body (Fin 5) (Fin 3) [Fin 2, Fin 4] = (Fin 0, Fin 3, [Fin 2, Fin 4])"
    by (simp add: est_defs Let_def)
  have "clip_loop (Fin 5) (Fin (- 1 / 2)) (Fin 0, Fin 3, [Fin 2, Fin 4]) = None"
    by (rule clip_loop_fixed_state) (simp_all add: b)
  moreover have "clip_loop (Fin 5) (Fin (- 1 / 2)) (Fin 1, Fin 3, [Fin 2, Fin 4]) =
      clip_loop (Fin 5) (Fin (- 1 / 2)) (Fin 0, Fin 3, [Fin 2, Fin 4])"
    using clip_loop_continue [of "Fin (- 1 / 2)" "(Fin 1, Fin 3, [Fin 2, Fin 4])" "Fin 5"]
    by (simp add: b)
  ultimately show ?thesis
    unfolding get_background_variance_def m by simp
qed

text \<open>
  Claim C2 says that a pass removes the samples whose absolute value exceeds
  \<open>mean + sigmaClip * stddev\<close>. The mask of the code keeps a sample only when its
  absolute value is strictly below that threshold, so a sample equal to it goes
  too. On the constant data \<open>[1, 1]\<close> with the defaults the threshold is
  \<open>1 + 5 * 0 = 1\<close>: the code empties the subset and returns the variance of no
  sample, \<open>NaN\<close>; by the steps of the claim nothing exceeds the threshold, the mean
  does not change and the result is the variance \<open>0\<close>.
\<close>

theorem estimator_rejects_constant_data:
  "get_background_variance [Fin 1, Fin 1] (Fin 5) (Fin (1 / 100)) = Some NaN \<and>
   spec_variance 1 [Fin 1, Fin 1] (Fin 5) (Fin (1 / 100)) = Some (Fin 0)"
proof -
  have b: "clip_body (Fin 5) (Fin 1) [Fin 1, Fin 1] = (NaN, NaN, [])"
    by (simp add: est_defs Let_def)
  have m: "nanmean [Fin 1, Fin 1] = Fin 1" by (simp add: est_defs Let_def)
  have v: "nanvar [] = NaN" by (simp add: est_defs Let_def)
  have "get_background_variance [Fin 1, Fin 1] (Fin 5) (Fin (1 / 100)) = Some NaN"
    unfolding get_background_variance_def m
    by (simp add: clip_loop_continue b clip_loop_stop v)
  moreover have "spec_variance 1 [Fin 1, Fin 1] (Fin 5) (Fin (1 / 100)) = Some (Fin 0)"
    by (simp add: spec_variance_def spec_keep_def spec_converged_def est_defs Let_def)
  ultimately show ?thesis by simp
qed

section \<open>A zero denominator in the relative change\<close>

text \<open>
  Claim C6, as the code has it: when \<open>mean + mean'\<close> is zero the division is done
  all the same and raises nothing. With \<open>mean = mean' = 0\<close> the relative change is
  \<open>NaN\<close>, the test \<^verbatim>\<open>diff > tolerance\<close> is false and the loop stops; with
  \<open>mean = - mean'\<close> not zero the relative change is plus infinity and the loop makes
  another pass.
\<close>

theorem zero_denominator_divides:
  assumes "m + m' = 0"
  shows "rel_change (Fin m) (Fin m') = (if m = 0 then NaN else PInf) \<and>
         clip_loop c (Fin t) (rel_change (Fin m) (Fin m'), Fin m', xs) =
           (if m = 0 then Some (nanvar xs)
            else clip_loop c (Fin t) (clip_body c (Fin m') xs))"
proof -
  from assms have m': "m' = - m" by simp
  have r: "rel_change (Fin m) (Fin m') = (if m = 0 then NaN else PInf)"
    by (simp add: rel_change_def fl_sub_def fl_inf_def m')
  show ?thesis
  proof (cases "m = 0")
    case True
    with r show ?thesis by (simp add: clip_loop_stop)
  next
    case False
    with r have "rel_change (Fin m) (Fin m') = PInf" by simp
    with False show ?thesis by (simp add: clip_loop_continue)
  qed
qed

text \<open>
  Witness for C6: \<open>mean = 1\<close>, \<open>mean' = -1\<close> and the subset \<open>[-1]\<close>; the loop goes on,
  the next pass empties the subset and the result is \<open>NaN\<close>.
\<close>

theorem zero_denominator_divides_witness:
  "(1::real) + (- 1) = 0 \<and> rel_change (Fin 1) (Fin (- 1)) = PInf \<and>
   clip_loop (Fin (1 / 2)) (Fin (1 / 100)) (PInf, Fin (- 1), [Fin (- 1)]) = Some NaN"
proof -
  have b: "clip_body (Fin (1 / 2)) (Fin (- 1)) [Fin (- 1)] = (NaN, NaN, [])"
    by (simp add: est_defs Let_def)
  have v: "nanvar [] = NaN" by (simp add: est_defs Let_def)
  note w = zero_denominator_divides [of 1 "- 1" "Fin (1 / 2)" "1 / 100" "[Fin (- 1)]"]
  from w [THEN conjunct1] have r: "rel_change (Fin 1) (Fin (- 1)) = PInf" by simp
  from w [THEN conjunct2] have "clip_loop (Fin (1 / 2)) (Fin (1 / 100))
        (rel_change (Fin 1) (Fin (- 1)), Fin (- 1), [Fin (- 1)]) =
      clip_loop (Fin (1 / 2)) (Fin (1 / 100)) (NaN, NaN, [])"
    unfolding b by simp
  then have "clip_loop (Fin (1 / 2)) (Fin (1 / 100)) (PInf, Fin (- 1), [Fin (- 1)]) = Some NaN"
    unfolding r by (simp add: clip_loop_stop v)
  with r show ?thesis by simp
qed

text \<open>
  Counterexample to C6 as stated: on \<open>[-1, 3]\<close> with \<open>sigma_clip = 0.5\<close> the first
  pass keeps \<open>[-1]\<close>, the old mean is \<open>1\<close>, the new mean \<open>-1\<close> and the denominator
  zero. Stopping there would return the variance of \<open>[-1]\<close>, which is \<open>0\<close>, as the
  estimator of the specification does; the code divides, gets plus infinity, makes
  another pass and returns \<open>NaN\<close>.
\<close>

theorem zero_denominator_counterexample:
  "clip_body (Fin (1 / 2)) (nanmean [Fin (- 1), Fin 3]) [Fin (- 1), Fin 3]
     = (PInf, Fin (- 1), [Fin (- 1)]) \<and>
   fl_add (nanmean [Fin (- 1), Fin 3]) (Fin (- 1)) = Fin 0 \<and>
   nanvar [Fin (- 1)] = Fin 0 \<and>
   spec_variance 1 [Fin (- 1), Fin 3] (Fin (1 / 2)) (Fin (1 / 100)) = Some (Fin 0) \<and>
   get_background_variance [Fin (- 1), Fin 3] (Fin (1 / 2)) (Fin (1 / 100)) = Some NaN"
proof -
  have m: "nanmean [Fin (- 1), Fin 3] = Fin 1" by (simp add: est_defs Let_def)
  have b1: "clip_body (Fin (1 / 2)) (Fin 1) [Fin (- 1), Fin 3] = (PInf, Fin (- 1), [Fin (- 1)])"
    by (simp add: est_defs Let_def)
  have b2: "clip_body (Fin (1 / 2)) (Fin (- 1)) [Fin (- 1)] = (NaN, NaN, [])"
    by (simp add: est_defs Let_def)
  have v0: "nanvar [] = NaN" by (simp add: est_defs Let_def)
  have v1: "nanvar [Fin (- 1)] = Fin 0" by (simp add: est_defs Let_def)
  have s: "spec_variance 1 [Fin (- 1), Fin 3] (Fin (1 / 2)) (Fin (1 / 100)) = Some (Fin 0)"
    by (simp add: spec_variance_def spec_keep_def spec_converged_def est_defs Let_def)
  have g: "get_background_variance [Fin (- 1), Fin 3] (Fin (1 / 2)) (Fin (1 / 100)) = Some NaN"
    unfolding get_background_variance_def m
    by (simp add: clip_loop_continue b1 b2 clip_loop_stop v0)
  show ?thesis using b1 v1 s g by (simp add: m)
qed

section \<open>Empty input and the number of passes\<close>

text \<open>
  Claim C8, as the code has it: on an empty sample sequence the estimator raises
  nothing and returns \<open>NaN\<close>, whatever \<open>sigma_clip\<close> and the tolerance are; and the
  loop has no cap on its passes and no error for non-convergence: on \<open>[1, 3]\<close> with
  the tolerance \<open>-1\<close>, which no relative change satisfies, it never ends.
\<close>

theorem estimator_empty_input_and_no_cap:
  "get_background_variance [] c tol = Some NaN \<and>
   get_background_variance [Fin 1, Fin 3] (Fin 5) (Fin (- 1)) = None"
proof -
  have m: "nanmean [Fin 1, Fin 3] = Fin 2" by (simp add: est_defs Let_def)
  have b: "clip_body (Fin 5) (Fin 2) [Fin 1, Fin 3] = (Fin 0, Fin 2, [Fin 1, Fin 3])"
    by (simp add: est_defs Let_def)
  have "clip_loop (Fin 5) (Fin (- 1)) (Fin 0, Fin 2, [Fin 1, Fin 3]) = None"
    by (rule clip_loop_fixed_state) (simp_all add: b)
  moreover have "clip_loop (Fin 5) (Fin (- 1)) (Fin 1, Fin 2, [Fin 1, Fin 3]) =
      clip_loop (Fin 5) (Fin (- 1)) (Fin 0, Fin 2, [Fin 1, Fin 3])"
    using clip_loop_continue [of "Fin (- 1)" "(Fin 1, Fin 2, [Fin 1, Fin 3])" "Fin 5"]
    by (simp add: b)
  ultimately have "get_background_variance [Fin 1, Fin 3] (Fin 5) (Fin (- 1)) = None"
    unfolding get_background_variance_def m by simp
  then show ?thesis by (simp add: gbv_empty)
qed

text \<open>
  Counterexample to C8 as stated: with the defaults the empty sequence gives the
  value \<open>NaN\<close>, not an error.
\<close>

theorem estimator_empty_counterexample:
  "get_background_variance [] (Fin 5) (Fin (1 / 100)) = Some NaN"
  by (rule gbv_empty)

section \<open>\<^verbatim>\<open>cutouts2\<close> and the unbound names\<close>

lemma run_stmts_unbound:
  assumes "n \<in> set (loads s)"
    and "\<not> name_bound (concat (map stores pre) @ locs) n"
  shows "\<exists>e. run_stmts raises i locs (pre @ s # post) = Inl e"
  using assms(2)
proof (induction pre arbitrary: i locs)
  case Nil
  then have "\<exists>m. find (\<lambda>n. \<not> name_bound locs n) (loads s) = Some m"
    using assms(1) by (cases "find (\<lambda>n. \<not> name_bound locs n) (loads s)") (auto simp: find_None_iff)
  then show ?case by auto
next
  case (Cons a pre)
  from Cons.prems have "\<not> name_bound (concat (map stores pre) @ (stores a @ locs)) n"
    by (auto simp: name_bound_def)
  from Cons.IH [OF this] show ?case
    by (auto split: option.splits)
qed

lemma pyfits_unbound: "\<not> name_bound cutouts2_names ''pyfits''"
  by (simp add: name_bound_def cutouts2_names_def cutouts2_body_def cutouts2_head_def
      cutouts2_getdata_def cutouts2_tail_def cutouts2_params_def module_globals_def py_builtins_def)

lemma math_unbound: "\<not> name_bound cutouts2_names ''math''"
  by (simp add: name_bound_def cutouts2_names_def cutouts2_body_def cutouts2_head_def
      cutouts2_getdata_def cutouts2_tail_def cutouts2_params_def module_globals_def py_builtins_def)

lemma cutouts2_raises: "\<exists>e. cutouts2_run raises = Inl e"
proof -
  have "\<not> name_bound (concat (map stores cutouts2_head) @ cutouts2_params) ''pyfits''"
    using pyfits_unbound
    by (simp add: name_bound_def cutouts2_names_def cutouts2_body_def)
  moreover have "''pyfits'' \<in> set (loads cutouts2_getdata)"
    by (simp add: cutouts2_getdata_def)
  ultimately show ?thesis
    unfolding cutouts2_run_def cutouts2_body_def by (rule run_stmts_unbound [rotated])
qed

lemma cutouts2_name_error:
  assumes "\<forall>i<17. raises i = None"
  shows "cutouts2_run raises = Inl (NameError ''pyfits'')"
proof -
  have r: "raises 0 = None" "raises 1 = None" "raises 2 = None" "raises 3 = None"
    "raises 4 = None" "raises 5 = None" "raises 6 = None" "raises 7 = None"
    "raises 8 = None" "raises 9 = None" "raises 10 = None" "raises 11 = None"
    "raises 12 = None" "raises 13 = None" "raises 14 = None" "raises 15 = None"
    "raises 16 = None"
    using assms by simp_all
  show ?thesis
    unfolding cutouts2_run_def cutouts2_body_def cutouts2_head_def cutouts2_getdata_def
      cutouts2_params_def
    by (simp add: r name_bound_def module_globals_def py_builtins_def eval_nat_numeral [symmetric]
          del: One_nat_def)
qed

text \<open>
  Claim C3, as the code has it: \<^verbatim>\<open>cutouts2\<close> never reaches its \<^verbatim>\<open>return\<close>. Whatever
  the calls into the libraries do, the run ends in an exception; when none of the
  seventeen statements before line 204 raises, the exception is the \<open>NameError\<close>
  for \<^verbatim>\<open>pyfits\<close>; and neither \<^verbatim>\<open>pyfits\<close> nor \<^verbatim>\<open>math\<close> is a local name of the
  function, a name of the module or a built-in.
\<close>

theorem cutouts2_never_returns:
  "(\<exists>e. cutouts2_run raises = Inl e) \<and>
   ((\<forall>i<17. raises i = None) \<longrightarrow> cutouts2_run raises = Inl (NameError ''pyfits'')) \<and>
   \<not> name_bound cutouts2_names ''pyfits'' \<and> \<not> name_bound cutouts2_names ''math''"
  using cutouts2_raises cutouts2_name_error pyfits_unbound math_unbound by blast

text \<open>Witness for C3: the run in which no library call raises.\<close>

theorem cutouts2_never_returns_witness:
  "cutouts2_run (\<lambda>_. None) = Inl (NameError ''pyfits'')"
  using cutouts2_never_returns [of "\<lambda>_. None"] by simp

text \<open>
  Counterexample to C3 as stated: when the file of the infrared mosaic does not
  exist, \<^verbatim>\<open>fits.getdata\<close> at line 177 (the seventh statement) raises, and the
  exception of the run is that one, not a \<open>NameError\<close>.
\<close>

theorem cutouts2_earlier_error_counterexample:
  "cutouts2_run (\<lambda>i. if i = 6 then Some (LibraryError ''FileNotFoundError'') else None)
     = Inl (LibraryError ''FileNotFoundError'')"
  unfolding cutouts2_run_def cutouts2_body_def cutouts2_head_def cutouts2_getdata_def
    cutouts2_params_def
  by (simp add: name_bound_def module_globals_def py_builtins_def eval_nat_numeral [symmetric]
        del: One_nat_def)

section \<open>The contour levels are never computed\<close>

lemma cutouts2_body_split:
  "cutouts2_body =
     (cutouts2_head @ cutouts2_getdata # take 4 cutouts2_tail)
       @ (cutouts2_tail ! 4) # drop 5 cutouts2_tail"
  by (simp add: cutouts2_body_def cutouts2_tail_def)

text \<open>
  Claim C4 says that the contour-level generator returns a sequence of levels. In
  the code the levels are line 210 of \<^verbatim>\<open>cutouts2\<close>, and no run gets there: line 204
  raises for \<^verbatim>\<open>pyfits\<close>, and with \<^verbatim>\<open>pyfits\<close> bound (as an import of it would do) the
  run still ends in an exception, which is, when no library call raises, the
  \<open>NameError\<close> for \<^verbatim>\<open>math\<close> at line 209, before \<^verbatim>\<open>contours\<close> is assigned.
\<close>

theorem cutouts2_contours_never_computed:
  "(\<exists>e. run_stmts raises 0 (''pyfits'' # cutouts2_params) cutouts2_body = Inl e) \<and>
   run_stmts (\<lambda>_. None) 0 (''pyfits'' # cutouts2_params) cutouts2_body
     = Inl (NameError ''math'')"
proof
  have "''math'' \<in> set (loads (cutouts2_tail ! 4))"
    by (simp add: cutouts2_tail_def)
  moreover have "\<not> name_bound
      (concat (map stores (cutouts2_head @ cutouts2_getdata # take 4 cutouts2_tail))
         @ (''pyfits'' # cutouts2_params)) ''math''"
    by (simp add: name_bound_def cutouts2_head_def cutouts2_getdata_def cutouts2_tail_def
        cutouts2_params_def module_globals_def py_builtins_def)
  ultimately show "\<exists>e. run_stmts raises 0 (''pyfits'' # cutouts2_params) cutouts2_body = Inl e"
    unfolding cutouts2_body_split by (rule run_stmts_unbound)
next
  show "run_stmts (\<lambda>_. None) 0 (''pyfits'' # cutouts2_params) cutouts2_body
     = Inl (NameError ''math'')"
    unfolding cutouts2_body_def cutouts2_head_def cutouts2_getdata_def cutouts2_tail_def
      cutouts2_params_def
    by (simp add: name_bound_def module_globals_def py_builtins_def)
qed

end
